theory Spec2Isabelle
  imports Main "HOL-Library.Word"
begin

section \<open>Reference counting runtime of trill (Sources/Runtime/arc.cpp)\<close>

text \<open>
  Addresses are machine words of the target's pointer width: the functions below work on
  \<open>'a word\<close> for any width \<open>'a\<close>, and \<open>sizeof(RefCountBox *)\<close> is that width in bytes.
  The null pointer is the word 0. The retain count is a \<open>uint32_t\<close>, a \<open>32 word\<close>.
  The records take the address type as a parameter \<open>'p\<close>.
\<close>

subsection \<open>Data\<close>

text \<open>
  \<open>struct RefCountBox\<close>: the retain count, the deinitializer (a function pointer, null
  when the type has none) and the mutex, of which the model keeps whether it is held.
\<close>

record 'p RefCountBox =
  retainCount :: "32 word"
  deinit :: "'p"
  mutex :: bool

text \<open>\<open>struct RefCounted\<close>: the address of the slot before the payload, and the payload.\<close>

record 'p RefCounted =
  boxPtr :: "'p"
  value' :: "'p"

text \<open>
  The memory the runtime works on:
  \<^item> \<open>raw\<close>: the regions obtained from \<open>trill_alloc\<close>, base address to size in bytes;
  \<^item> \<open>mem\<close>: the pointer-sized cells that have been written, address to content;
  \<^item> \<open>boxes\<close>: the \<open>RefCountBox\<close> objects made by \<open>new\<close> and not yet deleted;
  \<^item> \<open>calls\<close>: the deinitializer calls made so far, oldest first, each the function
    pointer called and its argument. The deinitializer is code of the caller: the model
    records the call, not what that code does.
\<close>

record 'p state =
  raw :: "'p \<rightharpoonup> 'p"
  mem :: "'p \<rightharpoonup> 'p"
  boxes :: "'p \<rightharpoonup> 'p RefCountBox"
  calls :: "('p \<times> 'p) list"

text \<open>
  A fatal message is the sequence of pieces streamed into it: string literals and
  pointers (how a pointer prints is left to the C++ library).
\<close>

datatype 'p piece = Str string | Ptr "'p"

text \<open>
  How a call ends: it returns a result in a new state; or \<open>trill_fatalError\<close> ends the
  process with a message, in the state reached by then; or the call has no defined
  behaviour or does not return (a read of memory that was never written, a null or
  dangling box pointer dereferenced, a held mutex locked again, a free mutex unlocked).
\<close>

datatype ('p, 'r) outcome = Ok 'r "'p state" | Fatal "'p piece list" "'p state" | Stuck

definition andThen ::
  "('p, 'r) outcome \<Rightarrow> ('r \<Rightarrow> 'p state \<Rightarrow> ('p, 'q) outcome) \<Rightarrow> ('p, 'q) outcome" where
  "andThen m f = (case m of Ok r s \<Rightarrow> f r s | Fatal msg s \<Rightarrow> Fatal msg s | Stuck \<Rightarrow> Stuck)"

text \<open>
  Modelled from the spec: \<open>trill_fatalError\<close> is declared in trill.h, which is not among
  the sources; the spec's \<open>reportFatal(message)\<close> never returns and ends the process.
\<close>

definition trill_fatalError :: "'p piece list \<Rightarrow> 'p state \<Rightarrow> ('p, 'r) outcome" where
  "trill_fatalError msg s = Fatal msg s"

definition pointerWidth :: "'a::len word" where
  "pointerWidth = of_nat (LENGTH('a) div 8)"

definition uint32_max :: "32 word" where
  "uint32_max = 4294967295"

subsection \<open>Access to the box\<close>

text \<open>\<open>RefCounted::box()\<close>: the content of the slot, \<open>*boxPtr\<close>.\<close>

definition box :: "'a::len word RefCounted \<Rightarrow> 'a word state \<Rightarrow> 'a word option" where
  "box rc s = mem s (boxPtr rc)"

text \<open>\<open>box()->\<close>: the slot is read and the box it points to is accessed.\<close>

definition boxDeref ::
  "'a::len word RefCounted \<Rightarrow> 'a word state \<Rightarrow> ('a word \<times> 'a word RefCountBox) option" where
  "boxDeref rc s =
     (case box rc s of
        None \<Rightarrow> None
      | Some b \<Rightarrow>
          if b = 0 then None
          else (case boxes s b of None \<Rightarrow> None | Some bx \<Rightarrow> Some (b, bx)))"

definition boxStore ::
  "'a::len word \<Rightarrow> 'a word RefCountBox \<Rightarrow> 'a word state \<Rightarrow> 'a word state" where
  "boxStore b bx s = s\<lparr>boxes := (boxes s)(b \<mapsto> bx)\<rparr>"

text \<open>\<open>box()->mutex.lock()\<close> and \<open>box()->mutex.unlock()\<close>.\<close>

definition mutex_lock :: "'a::len word RefCounted \<Rightarrow> 'a word state \<Rightarrow> ('a word, unit) outcome" where
  "mutex_lock rc s =
     (case boxDeref rc s of
        None \<Rightarrow> Stuck
      | Some (b, bx) \<Rightarrow>
          if mutex bx then Stuck else Ok () (boxStore b (bx\<lparr>mutex := True\<rparr>) s))"

definition mutex_unlock :: "'a::len word RefCounted \<Rightarrow> 'a word state \<Rightarrow> ('a word, unit) outcome" where
  "mutex_unlock rc s =
     (case boxDeref rc s of
        None \<Rightarrow> Stuck
      | Some (b, bx) \<Rightarrow>
          if mutex bx then Ok () (boxStore b (bx\<lparr>mutex := False\<rparr>) s) else Stuck)"

text \<open>
  \<open>DEBUG_ARC_LOG(x)\<close> (\<open>DEBUG_ARC\<close> is defined): it reads \<open>box()->retainCount\<close> and prints a
  line with the wall-clock time to \<open>std::cout\<close>. The model keeps the read; the text on
  standard output is not part of the state.
\<close>

definition DEBUG_ARC_LOG :: "'a::len word RefCounted \<Rightarrow> 'a word state \<Rightarrow> ('a word, unit) outcome" where
  "DEBUG_ARC_LOG rc s = (case boxDeref rc s of None \<Rightarrow> Stuck | Some (b, bx) \<Rightarrow> Ok () s)"

subsection \<open>\<open>RefCounted\<close>\<close>

text \<open>
  \<open>RefCounted(size_t size, trill_deinitializer_t deinit)\<close>. The two allocators are not
  part of the file: \<open>boxFullPtr\<close> is the address \<open>trill_alloc\<close> returns and \<open>newBox\<close> the
  address \<open>new RefCountBox\<close> returns.
\<close>

definition RefCounted_create ::
  "'a::len word \<Rightarrow> 'a word \<Rightarrow> 'a word \<Rightarrow> 'a word \<Rightarrow> 'a word state
     \<Rightarrow> ('a word, 'a word RefCounted) outcome" where
  "RefCounted_create boxFullPtr newBox size' deinit' s =
     (let s1 = s\<lparr>raw := (raw s)(boxFullPtr \<mapsto> pointerWidth + size')\<rparr>;
          s2 = s1\<lparr>boxes := (boxes s1)(newBox \<mapsto>
                   \<lparr>retainCount = 0, deinit = deinit', mutex = False\<rparr>)\<rparr>;
          s3 = s2\<lparr>mem := (mem s2)(boxFullPtr \<mapsto> newBox)\<rparr>;
          rc = \<lparr>boxPtr = boxFullPtr, value' = boxFullPtr + pointerWidth\<rparr>
      in andThen (DEBUG_ARC_LOG rc s3) (\<lambda>_ s4. Ok rc s4))"

text \<open>\<open>RefCounted(void *boxedValue)\<close>.\<close>

definition RefCounted_of :: "'a::len word \<Rightarrow> 'a word RefCounted" where
  "RefCounted_of boxedValue = \<lparr>boxPtr = boxedValue - pointerWidth, value' = boxedValue\<rparr>"

definition useAfterDeallocMsg :: "'p \<Rightarrow> 'p piece list" where
  "useAfterDeallocMsg v = [Str ''object ('', Ptr v, Str '') used after deallocation'']"

definition checkForUseAfterDealloc ::
  "'a::len word RefCounted \<Rightarrow> 'a word state \<Rightarrow> ('a word, unit) outcome" where
  "checkForUseAfterDealloc rc s =
     (case box rc s of
        None \<Rightarrow> Stuck
      | Some b \<Rightarrow>
          if b = 0 then trill_fatalError (useAfterDeallocMsg (value' rc)) s
          else Ok () s)"

text \<open>The scope of a \<open>std::lock_guard\<close>: lock, run the body, unlock when it returns.\<close>

definition lock_guard ::
  "'a::len word RefCounted \<Rightarrow> ('a word state \<Rightarrow> ('a word, 'r) outcome) \<Rightarrow> 'a word state
     \<Rightarrow> ('a word, 'r) outcome" where
  "lock_guard rc body s =
     andThen (mutex_lock rc s) (\<lambda>_ s1.
     andThen (body s1) (\<lambda>r s2.
     andThen (mutex_unlock rc s2) (\<lambda>_ s3. Ok r s3)))"

definition isUniquelyReferenced ::
  "'a::len word RefCounted \<Rightarrow> 'a word state \<Rightarrow> ('a word, bool) outcome" where
  "isUniquelyReferenced rc s =
     andThen (checkForUseAfterDealloc rc s) (\<lambda>_ s1.
     lock_guard rc (\<lambda>s2.
       case boxDeref rc s2 of
         None \<Rightarrow> Stuck
       | Some (b, bx) \<Rightarrow> Ok (retainCount bx = 1) s2) s1)"

text \<open>\<open>RefCounted::retainCount()\<close>.\<close>

definition getRetainCount ::
  "'a::len word RefCounted \<Rightarrow> 'a word state \<Rightarrow> ('a word, 32 word) outcome" where
  "getRetainCount rc s =
     andThen (checkForUseAfterDealloc rc s) (\<lambda>_ s1.
     lock_guard rc (\<lambda>s2.
       andThen (DEBUG_ARC_LOG rc s2) (\<lambda>_ s3.
       case boxDeref rc s3 of
         None \<Rightarrow> Stuck
       | Some (b, bx) \<Rightarrow> Ok (retainCount bx) s3)) s1)"

definition retain :: "'a::len word RefCounted \<Rightarrow> 'a word state \<Rightarrow> ('a word, unit) outcome" where
  "retain rc s =
     andThen (checkForUseAfterDealloc rc s) (\<lambda>_ s1.
     andThen (DEBUG_ARC_LOG rc s1) (\<lambda>_ s2.
     lock_guard rc (\<lambda>s3.
       case boxDeref rc s3 of
         None \<Rightarrow> Stuck
       | Some (b, bx) \<Rightarrow>
           if retainCount bx = uint32_max
           then trill_fatalError [Str ''retain count overflow''] s3
           else andThen (Ok () (boxStore b (bx\<lparr>retainCount := retainCount bx + 1\<rparr>) s3))
                  (\<lambda>_ s4. DEBUG_ARC_LOG rc s4)) s2))"

text \<open>
  \<open>delete box()\<close>: the box the slot points to is destroyed and its storage freed;
  \<open>delete\<close> of a null pointer does nothing, of a box that no longer exists is undefined.
\<close>

definition deleteBox :: "'a::len word RefCounted \<Rightarrow> 'a word state \<Rightarrow> ('a word, unit) outcome" where
  "deleteBox rc s =
     (case box rc s of
        None \<Rightarrow> Stuck
      | Some b \<Rightarrow>
          if b = 0 then Ok () s
          else (case boxes s b of
                  None \<Rightarrow> Stuck
                | Some bx \<Rightarrow> Ok () (s\<lparr>boxes := (boxes s)(b := None)\<rparr>)))"

text \<open>\<open>RefCounted::dealloc()\<close>, called with the mutex held.\<close>

definition dealloc :: "'a::len word RefCounted \<Rightarrow> 'a word state \<Rightarrow> ('a word, unit) outcome" where
  "dealloc rc s =
     andThen (checkForUseAfterDealloc rc s) (\<lambda>_ s1.
     case boxDeref rc s1 of
       None \<Rightarrow> Stuck
     | Some (b, bx) \<Rightarrow>
         if retainCount bx > 0
         then trill_fatalError [Str ''object deallocated with retain count > 0''] s1
         else
           andThen (DEBUG_ARC_LOG rc s1) (\<lambda>_ s2.
           andThen (case boxDeref rc s2 of
                      None \<Rightarrow> Stuck
                    | Some (b', bx') \<Rightarrow>
                        if deinit bx' \<noteq> 0
                        then Ok () (s2\<lparr>calls := calls s2 @ [(deinit bx', value' rc)]\<rparr>)
                        else Ok () s2) (\<lambda>_ s3.
           andThen (mutex_unlock rc s3) (\<lambda>_ s4.
           andThen (deleteBox rc s4) (\<lambda>_ s5.
           Ok () (s5\<lparr>mem := (mem s5)(boxPtr rc \<mapsto> 0)\<rparr>))))))"

definition release :: "'a::len word RefCounted \<Rightarrow> 'a word state \<Rightarrow> ('a word, unit) outcome" where
  "release rc s =
     andThen (checkForUseAfterDealloc rc s) (\<lambda>_ s1.
     andThen (mutex_lock rc s1) (\<lambda>_ s2.
     case boxDeref rc s2 of
       None \<Rightarrow> Stuck
     | Some (b, bx) \<Rightarrow>
         if retainCount bx = 0
         then trill_fatalError [Str ''attempting to release object with retain count 0''] s2
         else
           andThen (Ok () (boxStore b (bx\<lparr>retainCount := retainCount bx - 1\<rparr>) s2)) (\<lambda>_ s3.
           andThen (DEBUG_ARC_LOG rc s3) (\<lambda>_ s4.
           case boxDeref rc s4 of
             None \<Rightarrow> Stuck
           | Some (b', bx') \<Rightarrow>
               if retainCount bx' = 0 then dealloc rc s4 else mutex_unlock rc s4))))"

subsection \<open>The exported functions\<close>

definition trill_allocateIndirectType ::
  "'a::len word \<Rightarrow> 'a word \<Rightarrow> 'a word \<Rightarrow> 'a word \<Rightarrow> 'a word state
     \<Rightarrow> ('a word, 'a word) outcome" where
  "trill_allocateIndirectType boxFullPtr newBox size' deinit' s =
     andThen (RefCounted_create boxFullPtr newBox size' deinit' s) (\<lambda>rc s1. Ok (value' rc) s1)"

definition trill_retain :: "'a::len word \<Rightarrow> 'a word state \<Rightarrow> ('a word, unit) outcome" where
  "trill_retain instance s = retain (RefCounted_of instance) s"

definition trill_release :: "'a::len word \<Rightarrow> 'a word state \<Rightarrow> ('a word, unit) outcome" where
  "trill_release instance s = release (RefCounted_of instance) s"

definition trill_isUniquelyReferenced ::
  "'a::len word \<Rightarrow> 'a word state \<Rightarrow> ('a word, 8 word) outcome" where
  "trill_isUniquelyReferenced instance s =
     andThen (isUniquelyReferenced (RefCounted_of instance) s)
       (\<lambda>r s1. Ok (if r then 1 else 0) s1)"

subsection \<open>Sequences of calls\<close>



subsection \<open>Example states\<close>

text \<open>
  A 64-bit target: nothing allocated yet; one object of payload size 8 whose region is at
  address 16 (payload at 24) and whose box is at address 4096, with deinitializer 7 and a
  given retain count; and the same object after its deallocation.
\<close>

definition emptyState :: "64 word state" where
  "emptyState = \<lparr>raw = Map.empty, mem = Map.empty, boxes = Map.empty, calls = []\<rparr>"

definition exState :: "32 word \<Rightarrow> 64 word state" where
  "exState c =
     \<lparr>raw = [16 \<mapsto> 16], mem = [16 \<mapsto> 4096],
      boxes = [4096 \<mapsto> \<lparr>retainCount = c, deinit = 7, mutex = False\<rparr>], calls = []\<rparr>"

definition exLocked :: "32 word \<Rightarrow> 64 word state" where
  "exLocked c =
     \<lparr>raw = [16 \<mapsto> 16], mem = [16 \<mapsto> 4096],
      boxes = [4096 \<mapsto> \<lparr>retainCount = c, deinit = 7, mutex = True\<rparr>], calls = []\<rparr>"

definition exDead :: "64 word state" where
  "exDead = \<lparr>raw = [16 \<mapsto> 16], mem = [16 \<mapsto> 0], boxes = Map.empty, calls = [(7, 24)]\<rparr>"

section \<open>Properties\<close>

subsection \<open>The operations on a live object\<close>

text \<open>
  In the lemmas below the object at payload address \<open>p\<close> is live: its slot holds the
  address \<open>b\<close> of a box \<open>bx\<close> that exists and whose mutex is free.
\<close>

lemmas prims = andThen_def box_def boxDeref_def boxStore_def mutex_lock_def mutex_unlock_def
  DEBUG_ARC_LOG_def checkForUseAfterDealloc_def lock_guard_def trill_fatalError_def
  deleteBox_def

lemma unlocked_eq:
  "\<not> mutex bx \<Longrightarrow> bx\<lparr>retainCount := c, mutex := False\<rparr> = bx\<lparr>retainCount := c\<rparr>"
  by simp


lemma isUniquelyReferenced_live:
  assumes "mem s (boxPtr rc) = Some b" "b \<noteq> 0" "boxes s b = Some bx" "\<not> mutex bx"
  shows "isUniquelyReferenced rc s = Ok (retainCount bx = 1) s"
  using assms by (simp add: isUniquelyReferenced_def prims map_upd_triv)

lemma getRetainCount_live:
  assumes "mem s (boxPtr rc) = Some b" "b \<noteq> 0" "boxes s b = Some bx" "\<not> mutex bx"
  shows "getRetainCount rc s = Ok (retainCount bx) s"
  using assms by (simp add: getRetainCount_def prims map_upd_triv)

lemma dealloc_live:
  assumes "mem s (boxPtr rc) = Some b" "b \<noteq> 0" "boxes s b = Some bx" "mutex bx"
    "retainCount bx = 0"
  shows "dealloc rc s =
     Ok () (s\<lparr>calls := calls s @ (if deinit bx \<noteq> 0 then [(deinit bx, value' rc)] else []),
               boxes := (boxes s)(b := None),
               mem := (mem s)(boxPtr rc \<mapsto> 0)\<rparr>)"
  using assms by (simp add: dealloc_def prims)

lemma release_live:
  assumes "mem s (boxPtr rc) = Some b" "b \<noteq> 0" "boxes s b = Some bx" "\<not> mutex bx"
  shows "release rc s =
     (if retainCount bx = 0
      then Fatal [Str ''attempting to release object with retain count 0'']
             (boxStore b (bx\<lparr>mutex := True\<rparr>) s)
      else if retainCount bx - 1 \<noteq> 0
      then Ok () (boxStore b (bx\<lparr>retainCount := retainCount bx - 1\<rparr>) s)
      else Ok () (s\<lparr>calls := calls s @ (if deinit bx \<noteq> 0 then [(deinit bx, value' rc)] else []),
               boxes := (boxes s)(b := None),
               mem := (mem s)(boxPtr rc \<mapsto> 0)\<rparr>))"
  using assms by (simp add: release_def dealloc_def prims unlocked_eq)

lemma allocate_result:
  assumes "newBox \<noteq> 0"
  shows "trill_allocateIndirectType boxFullPtr newBox sz d s =
     Ok (boxFullPtr + pointerWidth)
        (s\<lparr>raw := (raw s)(boxFullPtr \<mapsto> pointerWidth + sz),
            boxes := (boxes s)(newBox \<mapsto> \<lparr>retainCount = 0, deinit = d, mutex = False\<rparr>),
            mem := (mem s)(boxFullPtr \<mapsto> newBox)\<rparr>)"
  using assms by (simp add: trill_allocateIndirectType_def RefCounted_create_def prims)

subsection \<open>A dead object\<close>

text \<open>Once the slot holds the null pointer, every operation ends in the use-after-free error.\<close>

lemma dead_object:
  assumes "mem s (boxPtr rc) = Some 0"
  shows "retain rc s = Fatal (useAfterDeallocMsg (value' rc)) s"
    "release rc s = Fatal (useAfterDeallocMsg (value' rc)) s"
    "isUniquelyReferenced rc s = Fatal (useAfterDeallocMsg (value' rc)) s"
    "getRetainCount rc s = Fatal (useAfterDeallocMsg (value' rc)) s"
  using assms
  by (simp_all add: retain_def release_def isUniquelyReferenced_def getRetainCount_def prims)

subsection \<open>Arithmetic of the retain count\<close>



lemma u32_pos: "0 < unat (c :: 32 word) \<Longrightarrow> c \<noteq> 0"
  by auto

lemma u32_pred: "0 < unat (c :: 32 word) \<Longrightarrow> unat (c - 1) = unat c - 1"
  by (simp add: unat_minus_one u32_pos)





subsection \<open>Runs of retains and releases\<close>






lemma last_release:
  assumes "mem s (p - pointerWidth) = Some b" "b \<noteq> 0" "boxes s b = Some bx" "\<not> mutex bx"
    "retainCount bx = 1"
  shows "trill_release p s =
     Ok () (s\<lparr>calls := calls s @ (if deinit bx \<noteq> 0 then [(deinit bx, p)] else []),
               boxes := (boxes s)(b := None),
               mem := (mem s)(p - pointerWidth \<mapsto> 0)\<rparr>)"
  using release_live [of s "RefCounted_of p" b bx] assms
  by (simp add: trill_release_def RefCounted_of_def)


text \<open>The check at the start of teardown is a real branch of \<open>dealloc\<close>.\<close>

lemma dealloc_check_fires:
  "dealloc (RefCounted_of 24) (exLocked 1)
     = Fatal [Str ''object deallocated with retain count > 0''] (exLocked 1)"
  by (simp add: dealloc_def RefCounted_of_def prims exLocked_def pointerWidth_def)

subsection \<open>Claims\<close>




text \<open>
  C2. On a live object \<open>trill_release\<close> ends in the fatal error "attempting to release
  object with retain count 0" when the count is 0 at entry. Otherwise the count is
  decremented by exactly 1 (no wrap-around); when the new count is not 0 the call returns
  and the state differs from the one at entry in that count only, so the object is still
  live; when it is 0, teardown runs on the state with the decremented count.
\<close>

theorem release_underflow_or_decrement:
  assumes "mem s (p - pointerWidth) = Some b" "b \<noteq> 0" "boxes s b = Some bx" "\<not> mutex bx"
  shows "trill_release p s =
     (if retainCount bx = 0
      then Fatal [Str ''attempting to release object with retain count 0'']
             (boxStore b (bx\<lparr>mutex := True\<rparr>) s)
      else if retainCount bx - 1 \<noteq> 0
      then Ok () (boxStore b (bx\<lparr>retainCount := retainCount bx - 1\<rparr>) s)
      else dealloc (RefCounted_of p)
             (boxStore b (bx\<lparr>mutex := True, retainCount := retainCount bx - 1\<rparr>) s)) \<and>
     (retainCount bx = 0 \<or> Suc (unat (retainCount bx - 1)) = unat (retainCount bx))"
proof -
  have "retainCount bx = 0 \<or> Suc (unat (retainCount bx - 1)) = unat (retainCount bx)"
    using u32_pred [of "retainCount bx"] by (cases "retainCount bx = 0") (simp_all add: unat_gt_0)
  moreover have "trill_release p s =
     (if retainCount bx = 0
      then Fatal [Str ''attempting to release object with retain count 0'']
             (boxStore b (bx\<lparr>mutex := True\<rparr>) s)
      else if retainCount bx - 1 \<noteq> 0
      then Ok () (boxStore b (bx\<lparr>retainCount := retainCount bx - 1\<rparr>) s)
      else dealloc (RefCounted_of p)
             (boxStore b (bx\<lparr>mutex := True, retainCount := retainCount bx - 1\<rparr>) s))"
    using assms
    by (simp add: trill_release_def RefCounted_of_def release_def prims unlocked_eq)
  ultimately show ?thesis by simp
qed

theorem release_underflow_or_decrement_witness:
  "trill_release 24 (exState 0) =
     Fatal [Str ''attempting to release object with retain count 0''] (exLocked 0) \<and>
   trill_release 24 (exState 2) = Ok () (exState 1) \<and>
   trill_release 24 (exState 1) = dealloc (RefCounted_of 24) (exLocked 0) \<and>
   dealloc (RefCounted_of 24) (exLocked 0) = Ok () exDead"
  using release_underflow_or_decrement
          [of "exState 0" 24 4096 "\<lparr>retainCount = 0, deinit = 7, mutex = False\<rparr>"]
        release_underflow_or_decrement
          [of "exState 2" 24 4096 "\<lparr>retainCount = 2, deinit = 7, mutex = False\<rparr>"]
        release_underflow_or_decrement
          [of "exState 1" 24 4096 "\<lparr>retainCount = 1, deinit = 7, mutex = False\<rparr>"]
  by (simp add: exState_def exLocked_def exDead_def pointerWidth_def
        RefCounted_of_def dealloc_def prims)



text \<open>
  C4. When \<open>trill_release\<close> takes the count of a live object from 1 to 0, it returns in
  a state where the slot before the payload holds the null pointer, and there each of
  retain, release, isUniquelyReferenced and retainCount on that payload address ends in the
  fatal error "object (p) used after deallocation", which carries the payload address, in
  that same state.
\<close>

theorem use_after_dealloc_is_fatal:
  assumes "mem s (p - pointerWidth) = Some b" "b \<noteq> 0" "boxes s b = Some bx" "\<not> mutex bx"
    "retainCount bx = 1"
  shows "\<exists>s1. trill_release p s = Ok () s1 \<and>
           mem s1 (p - pointerWidth) = Some 0 \<and>
           trill_retain p s1
             = Fatal [Str ''object ('', Ptr p, Str '') used after deallocation''] s1 \<and>
           trill_release p s1
             = Fatal [Str ''object ('', Ptr p, Str '') used after deallocation''] s1 \<and>
           trill_isUniquelyReferenced p s1
             = Fatal [Str ''object ('', Ptr p, Str '') used after deallocation''] s1 \<and>
           isUniquelyReferenced (RefCounted_of p) s1
             = Fatal [Str ''object ('', Ptr p, Str '') used after deallocation''] s1 \<and>
           getRetainCount (RefCounted_of p) s1
             = Fatal [Str ''object ('', Ptr p, Str '') used after deallocation''] s1"
proof -
  let ?s1 = "s\<lparr>calls := calls s @ (if deinit bx \<noteq> 0 then [(deinit bx, p)] else []),
               boxes := (boxes s)(b := None),
               mem := (mem s)(p - pointerWidth \<mapsto> 0)\<rparr>"
  have rel: "trill_release p s = Ok () ?s1"
    using assms by (rule last_release)
  have slot: "mem ?s1 (boxPtr (RefCounted_of p)) = Some 0"
    by (simp add: RefCounted_of_def)
  have v: "value' (RefCounted_of p) = p"
    by (simp add: RefCounted_of_def)
  show ?thesis
    using rel slot dead_object [OF slot]
    by (simp add: v useAfterDeallocMsg_def trill_retain_def trill_release_def
          trill_isUniquelyReferenced_def andThen_def RefCounted_of_def)
qed

theorem use_after_dealloc_is_fatal_witness:
  "trill_release 24 (exState 1) = Ok () exDead \<and>
   mem exDead 16 = Some 0 \<and>
   trill_retain 24 exDead
     = Fatal [Str ''object ('', Ptr 24, Str '') used after deallocation''] exDead \<and>
   trill_release 24 exDead
     = Fatal [Str ''object ('', Ptr 24, Str '') used after deallocation''] exDead \<and>
   trill_isUniquelyReferenced 24 exDead
     = Fatal [Str ''object ('', Ptr 24, Str '') used after deallocation''] exDead \<and>
   getRetainCount (RefCounted_of 24) exDead
     = Fatal [Str ''object ('', Ptr 24, Str '') used after deallocation''] exDead"
proof -
  have rel: "trill_release 24 (exState 1) = Ok () exDead"
    by (simp add: trill_release_def release_def dealloc_def RefCounted_of_def prims
          exState_def exDead_def pointerWidth_def)
  show ?thesis
    using use_after_dealloc_is_fatal
            [of "exState 1" 24 4096 "\<lparr>retainCount = 1, deinit = 7, mutex = False\<rparr>"] rel
    by (simp add: exState_def pointerWidth_def)
qed

text \<open>
  C5. For every size and deinitializer, \<open>trill_allocateIndirectType\<close> returns a payload
  address whose retain count reads 0, and \<open>trill_release\<close> on it right away ends in the
  fatal error "attempting to release object with retain count 0".
\<close>

theorem fresh_object_count_zero_release_fatal:
  assumes "newBox \<noteq> 0"
  shows "\<exists>s1. trill_allocateIndirectType boxFullPtr newBox sz d s
                 = Ok (boxFullPtr + pointerWidth) s1 \<and>
           getRetainCount (RefCounted_of (boxFullPtr + pointerWidth)) s1 = Ok 0 s1 \<and>
           trill_release (boxFullPtr + pointerWidth) s1
             = Fatal [Str ''attempting to release object with retain count 0'']
                 (boxStore newBox \<lparr>retainCount = 0, deinit = d, mutex = True\<rparr> s1)"
proof -
  let ?bx = "\<lparr>retainCount = 0, deinit = d, mutex = False\<rparr>"
  let ?s1 = "s\<lparr>raw := (raw s)(boxFullPtr \<mapsto> pointerWidth + sz),
            boxes := (boxes s)(newBox \<mapsto> ?bx),
            mem := (mem s)(boxFullPtr \<mapsto> newBox)\<rparr>"
  let ?rc = "RefCounted_of (boxFullPtr + pointerWidth)"
  have slot: "mem ?s1 (boxPtr ?rc) = Some newBox" and bx: "boxes ?s1 newBox = Some ?bx"
    by (simp_all add: RefCounted_of_def)
  have "getRetainCount ?rc ?s1 = Ok 0 ?s1"
    using getRetainCount_live [OF slot assms bx] by simp
  moreover have "trill_release (boxFullPtr + pointerWidth) ?s1
        = Fatal [Str ''attempting to release object with retain count 0'']
            (boxStore newBox \<lparr>retainCount = 0, deinit = d, mutex = True\<rparr> ?s1)"
    using release_live [OF slot assms bx] by (simp add: trill_release_def)
  ultimately show ?thesis
    using allocate_result [OF assms, of boxFullPtr sz d s] by simp
qed

theorem fresh_object_count_zero_release_fatal_witness:
  "trill_allocateIndirectType 16 4096 8 7 emptyState = Ok 24 (exState 0) \<and>
   getRetainCount (RefCounted_of 24) (exState 0) = Ok 0 (exState 0) \<and>
   trill_release 24 (exState 0)
     = Fatal [Str ''attempting to release object with retain count 0''] (exLocked 0)"
proof -
  have al: "trill_allocateIndirectType 16 4096 8 7 emptyState = Ok 24 (exState 0)"
    by (simp add: trill_allocateIndirectType_def RefCounted_create_def prims
          exState_def emptyState_def pointerWidth_def)
  have lk: "boxStore 4096 \<lparr>retainCount = 0, deinit = 7, mutex = True\<rparr> (exState 0) = exLocked 0"
    by (simp add: boxStore_def exState_def exLocked_def)
  show ?thesis
    using fresh_object_count_zero_release_fatal [of 4096 16 8 7 emptyState] al lk
    by (simp add: pointerWidth_def)
qed

text \<open>
  C6. For a live object, \<open>isUniquelyReferenced\<close> returns true exactly when the retain
  count is 1 (so false for 0 and for every count from 2 on), and the state it returns in is
  the state it was called in; \<open>trill_isUniquelyReferenced\<close> returns 1 or 0 accordingly.
\<close>

theorem isUniquelyReferenced_iff_count_one:
  assumes "mem s (p - pointerWidth) = Some b" "b \<noteq> 0" "boxes s b = Some bx" "\<not> mutex bx"
  shows "isUniquelyReferenced (RefCounted_of p) s = Ok (retainCount bx = 1) s \<and>
         trill_isUniquelyReferenced p s = Ok (if retainCount bx = 1 then 1 else 0) s"
  using isUniquelyReferenced_live [of s "RefCounted_of p" b bx] assms
  by (simp add: trill_isUniquelyReferenced_def RefCounted_of_def andThen_def)

theorem isUniquelyReferenced_iff_count_one_witness:
  "isUniquelyReferenced (RefCounted_of 24) (exState 1) = Ok True (exState 1) \<and>
   trill_isUniquelyReferenced 24 (exState 1) = Ok 1 (exState 1) \<and>
   isUniquelyReferenced (RefCounted_of 24) (exState 2) = Ok False (exState 2) \<and>
   trill_isUniquelyReferenced 24 (exState 0) = Ok 0 (exState 0)"
  using isUniquelyReferenced_iff_count_one
          [of "exState 1" 24 4096 "\<lparr>retainCount = 1, deinit = 7, mutex = False\<rparr>"]
        isUniquelyReferenced_iff_count_one
          [of "exState 2" 24 4096 "\<lparr>retainCount = 2, deinit = 7, mutex = False\<rparr>"]
        isUniquelyReferenced_iff_count_one
          [of "exState 0" 24 4096 "\<lparr>retainCount = 0, deinit = 7, mutex = False\<rparr>"]
  by (simp add: exState_def pointerWidth_def)

text \<open>
  C7. Round trip of the addressing layer: \<open>trill_allocateIndirectType\<close> returns the
  address \<open>pointerWidth\<close> bytes after the start of the region; the slot found from that
  payload address is the start of the region, it holds the address of the box made by the
  allocation, and that box has retain count 0 and the deinitializer given.
\<close>

theorem allocate_then_resolve_box:
  assumes "newBox \<noteq> 0"
  shows "\<exists>s1. trill_allocateIndirectType boxFullPtr newBox sz d s
                 = Ok (boxFullPtr + pointerWidth) s1 \<and>
           boxPtr (RefCounted_of (boxFullPtr + pointerWidth)) = boxFullPtr \<and>
           box (RefCounted_of (boxFullPtr + pointerWidth)) s1 = Some newBox \<and>
           boxes s1 newBox = Some \<lparr>retainCount = 0, deinit = d, mutex = False\<rparr>"
  using allocate_result [OF assms, of boxFullPtr sz d s]
  by (simp add: RefCounted_of_def box_def)

theorem allocate_then_resolve_box_witness:
  "trill_allocateIndirectType 16 4096 8 7 emptyState = Ok 24 (exState 0) \<and>
   boxPtr (RefCounted_of (24 :: 64 word)) = 16 \<and>
   box (RefCounted_of 24) (exState 0) = Some 4096 \<and>
   boxes (exState 0) 4096 = Some \<lparr>retainCount = 0, deinit = 7, mutex = False\<rparr>"
  using allocate_then_resolve_box [of 4096 16 8 7 emptyState]
  by (simp add: exState_def emptyState_def pointerWidth_def RefCounted_of_def
        trill_allocateIndirectType_def RefCounted_create_def prims)

text \<open>
  C8. The fatal error "object deallocated with retain count > 0" cannot come out of a
  release, whatever the state and the address: \<open>dealloc\<close> is called by \<open>release\<close> only,
  and only where the count just read is 0, so its own check of the count passes.
\<close>

theorem teardown_check_unreachable:
  "release rc s \<noteq> Fatal [Str ''object deallocated with retain count > 0''] t \<and>
   trill_release p s \<noteq> Fatal [Str ''object deallocated with retain count > 0''] t"
  by (auto simp: trill_release_def release_def dealloc_def prims useAfterDeallocMsg_def
       split: option.splits if_splits)

text \<open>
  C9. Teardown, entered with the mutex held and the count 0, returns; it removes the box
  and nothing else from the boxes, writes the null pointer into the slot before the payload
  and nothing else into memory, leaves the regions obtained from \<open>trill_alloc\<close> as they
  were, and calls the deinitializer, when there is one, once with the payload address.
  After it the slot reads as the null pointer.
\<close>

theorem dealloc_frame:
  assumes "mem s (p - pointerWidth) = Some b" "b \<noteq> 0" "boxes s b = Some bx" "mutex bx"
    "retainCount bx = 0"
  shows "\<exists>s1. dealloc (RefCounted_of p) s = Ok () s1 \<and>
           raw s1 = raw s \<and>
           boxes s1 = (boxes s)(b := None) \<and>
           mem s1 = (mem s)(p - pointerWidth \<mapsto> 0) \<and>
           mem s1 (p - pointerWidth) = Some 0 \<and>
           calls s1 = calls s @ (if deinit bx \<noteq> 0 then [(deinit bx, p)] else [])"
  using dealloc_live [of s "RefCounted_of p" b bx] assms
  by (simp add: RefCounted_of_def)

theorem dealloc_frame_witness:
  "dealloc (RefCounted_of 24) (exLocked 0) = Ok () exDead \<and>
   raw exDead = raw (exLocked 0) \<and>
   boxes exDead = (boxes (exLocked 0))(4096 := None) \<and>
   mem exDead = (mem (exLocked 0))(16 \<mapsto> 0) \<and>
   mem exDead 16 = Some 0 \<and>
   calls exDead = calls (exLocked 0) @ [(7, 24)]"
proof -
  have d: "dealloc (RefCounted_of 24) (exLocked 0) = Ok () exDead"
    by (simp add: dealloc_def RefCounted_of_def prims exLocked_def exDead_def pointerWidth_def)
  show ?thesis
    using dealloc_frame [of "exLocked 0" 24 4096 "\<lparr>retainCount = 0, deinit = 7, mutex = True\<rparr>"] d
    by (simp add: exLocked_def pointerWidth_def)
qed

end
